theory Spec2Isabelle
  imports Main
begin

section \<open>JavaScript values\<close>

text \<open>
  The library is untyped JavaScript: the arguments of its public operations, the bodies
  the server answers with and the claims decoded from a token are arbitrary values, and
  the code dispatches on their shape (\<^verbatim>\<open>isString\<close>, \<^verbatim>\<open>isArray\<close>, \<^verbatim>\<open>isObject\<close>,
  \<^verbatim>\<open>has\<close>, truthiness). A value is therefore a term of \<open>jsval\<close>. An object is the
  list of its own properties, the first entry of a name being the property's value.
  Numbers are the integers (HTTP statuses and the like).
\<close>

datatype jsval =
    JUndefined
  | JNull
  | JBool bool
  | JNum int
  | JStr string
  | JArr "jsval list"
  | JObj "(string \<times> jsval) list"

text \<open>What a JavaScript exception carries, as far as this program raises any.\<close>

datatype js_error = TypeError | Error string

text \<open>\<^verbatim>\<open>if (v)\<close>, \<^verbatim>\<open>!v\<close>, \<^verbatim>\<open>a || b\<close>: the truthiness of a value.\<close>

fun truthy :: "jsval \<Rightarrow> bool" where
  "truthy JUndefined = False"
| "truthy JNull = False"
| "truthy (JBool b) = b"
| "truthy (JNum n) = (n \<noteq> 0)"
| "truthy (JStr s) = (s \<noteq> [])"
| "truthy (JArr xs) = True"
| "truthy (JObj kvs) = True"

text \<open>
  \<^verbatim>\<open>v.k\<close> on a value that is neither \<^verbatim>\<open>null\<close> nor \<^verbatim>\<open>undefined\<close>. The names the
  program reads (\<^verbatim>\<open>name\<close>, \<^verbatim>\<open>groups\<close>, \<^verbatim>\<open>un\<close>, \<^verbatim>\<open>n\<close>, \<^verbatim>\<open>uid\<close>, \<^verbatim>\<open>username\<close>,
  \<^verbatim>\<open>email\<close>, \<^verbatim>\<open>password\<close>, \<^verbatim>\<open>status\<close>, \<^verbatim>\<open>message\<close>, \<^verbatim>\<open>token\<close>, \<^verbatim>\<open>account\<close>,
  \<^verbatim>\<open>data\<close>, \<^verbatim>\<open>response\<close>, \<^verbatim>\<open>text\<close>, \<^verbatim>\<open>body\<close>, \<^verbatim>\<open>error\<close>, \<^verbatim>\<open>logLevel\<close>, \<^verbatim>\<open>true\<close>)
  are no members of a primitive, of an array or of \<^verbatim>\<open>Object.prototype\<close>, so only an
  object's own property can answer.
\<close>

fun js_prop :: "jsval \<Rightarrow> string \<Rightarrow> jsval" where
  "js_prop (JObj kvs) k = (case map_of kvs k of Some v \<Rightarrow> v | None \<Rightarrow> JUndefined)"
| "js_prop v k = JUndefined"

text \<open>\<^verbatim>\<open>v.k\<close> in general: reading a property of \<^verbatim>\<open>null\<close> or \<^verbatim>\<open>undefined\<close> throws.\<close>

definition js_get :: "jsval \<Rightarrow> string \<Rightarrow> js_error + jsval" where
  "js_get v k = (if v = JUndefined \<or> v = JNull then Inl TypeError else Inr (js_prop v k))"

text \<open>lodash's \<^verbatim>\<open>isString\<close>, \<^verbatim>\<open>isArray\<close>, \<^verbatim>\<open>isObject\<close> and \<^verbatim>\<open>has\<close> (own property).\<close>

fun isString :: "jsval \<Rightarrow> bool" where
  "isString (JStr s) = True"
| "isString v = False"

fun isArray :: "jsval \<Rightarrow> bool" where
  "isArray (JArr xs) = True"
| "isArray v = False"

fun isObject :: "jsval \<Rightarrow> bool" where
  "isObject (JArr xs) = True"
| "isObject (JObj kvs) = True"
| "isObject v = False"

fun has :: "jsval \<Rightarrow> string \<Rightarrow> bool" where
  "has (JObj kvs) k = (map_of kvs k \<noteq> None)"
| "has v k = False"

section \<open>Request Client (src/utils/request.js)\<close>

text \<open>
  The transport is superagent. A request under construction is a record of what the
  builder calls have set: \<^verbatim>\<open>superagent.get(url)\<close> and its siblings fix the method and
  the URL, \<^verbatim>\<open>query\<close> and \<^verbatim>\<open>send\<close> attach the query object and the body, \<^verbatim>\<open>set\<close>
  writes a header.
\<close>

datatype verb = GET | POST | PUT | DELETE

record request =
  req_method :: verb
  req_url :: string
  req_query :: jsval
  req_body :: jsval
  req_headers :: "(string \<times> string) list"

definition superagent :: "verb \<Rightarrow> string \<Rightarrow> request" where
  "superagent m u =
     \<lparr>req_method = m, req_url = u, req_query = JUndefined, req_body = JUndefined,
      req_headers = []\<rparr>"

definition query :: "jsval \<Rightarrow> request \<Rightarrow> request" where
  "query q r = r\<lparr>req_query := q\<rparr>"

definition send :: "jsval \<Rightarrow> request \<Rightarrow> request" where
  "send d r = r\<lparr>req_body := d\<rparr>"

definition set_header :: "string \<Rightarrow> string \<Rightarrow> request \<Rightarrow> request" where
  "set_header f v r = r\<lparr>req_headers := (f, v) # filter (\<lambda>h. fst h \<noteq> f) (req_headers r)\<rparr>"

text \<open>\<^verbatim>\<open>superagent.put(url, data)\<close>: the body is sent when \<^verbatim>\<open>data\<close> is truthy.\<close>

definition superagent_put :: "string \<Rightarrow> jsval \<Rightarrow> request" where
  "superagent_put u d = (let r = superagent PUT u in if truthy d then send d r else r)"

text \<open>
  \<^verbatim>\<open>addAuthHeader\<close>. \<^verbatim>\<open>token.string\<close> is a string or null (\<open>None\<close>);
  \<^verbatim>\<open>if (token.string)\<close> holds for a string that is not empty.
\<close>

definition addAuthHeader :: "string option \<Rightarrow> request \<Rightarrow> request" where
  "addAuthHeader tok r =
     (case tok of
        None \<Rightarrow> r
      | Some s \<Rightarrow> if s \<noteq> [] then set_header ''Authorization'' (''Bearer '' @ s) r else r)"

text \<open>The request each verb of the client hands to \<^verbatim>\<open>handleResponse\<close>.\<close>

definition get_request :: "string option \<Rightarrow> string \<Rightarrow> jsval \<Rightarrow> request" where
  "get_request tok url queryData =
     (let req = superagent GET url;
          req = (if truthy queryData then query queryData req else req)
      in addAuthHeader tok req)"

definition post_request :: "string option \<Rightarrow> string \<Rightarrow> jsval \<Rightarrow> request" where
  "post_request tok url d = addAuthHeader tok (send d (superagent POST url))"

definition put_request :: "string option \<Rightarrow> string \<Rightarrow> jsval \<Rightarrow> request" where
  "put_request tok url d = addAuthHeader tok (superagent_put url d)"

definition del_request :: "string option \<Rightarrow> string \<Rightarrow> jsval \<Rightarrow> request" where
  "del_request tok url d = addAuthHeader tok (superagent_put url d)"

text \<open>
  How a promise of the library ends: resolved with a value, rejected with a value,
  rejected with an exception raised in its last handler (\<open>Raised\<close>), or never settled
  because an exception escaped from the transport's callback before \<^verbatim>\<open>resolve\<close> or
  \<^verbatim>\<open>reject\<close> was reached (\<open>Unsettled\<close>).
\<close>

datatype outcome =
    Resolved jsval
  | Rejected jsval
  | Raised js_error
  | Unsettled js_error

text \<open>
  \<^verbatim>\<open>handleResponse\<close>, from the pair \<^verbatim>\<open>(errorRes, res)\<close> that superagent passes to the
  callback of \<^verbatim>\<open>req.end\<close>. \<^verbatim>\<open>JSON.parse\<close> is the platform's: \<open>parse v\<close> is \<open>Some\<close> of
  the parsed value, \<open>None\<close> when it throws. A request built by superagent has an
  \<^verbatim>\<open>end\<close> function, so the guard on \<^verbatim>\<open>typeof req.end\<close> never fires. The two log
  calls have no effect on the result.
\<close>

definition handleResponse :: "(jsval \<Rightarrow> jsval option) \<Rightarrow> jsval \<times> jsval \<Rightarrow> outcome" where
  "handleResponse parse cb =
     (let errorRes = fst cb; res = snd cb in
      if truthy errorRes then
        (let response = js_prop errorRes ''response'';
             error = (if truthy response \<and> truthy (js_prop response ''body'')
                      then js_prop (js_prop response ''body'') ''error'' else errorRes)
         in case js_get error ''message'' of
              Inl e \<Rightarrow> Unsettled e
            | Inr m \<Rightarrow> Rejected (if truthy m then m else error))
      else
        (case js_get res ''body'' of
           Inl e \<Rightarrow> Unsettled e
         | Inr b \<Rightarrow> (case parse b of Some v \<Rightarrow> Resolved v | None \<Rightarrow> Resolved b)))"

text \<open>
  The response superagent hands to the callback on success keeps the reply's raw text
  in \<^verbatim>\<open>text\<close>; \<^verbatim>\<open>body\<close> is what superagent itself has parsed from it: for a JSON
  reply the value the text encodes, and for a reply that is no JSON an empty object
  (node build) or null (browser build).
\<close>

datatype build = NodeBuild | BrowserBuild

definition json_reply :: "string \<Rightarrow> jsval \<Rightarrow> jsval" where
  "json_reply t v = JObj [(''text'', JStr t), (''body'', v)]"

definition text_reply :: "build \<Rightarrow> string \<Rightarrow> jsval" where
  "text_reply b t =
     JObj [(''text'', JStr t),
           (''body'', case b of NodeBuild \<Rightarrow> JObj [] | BrowserBuild \<Rightarrow> JNull)]"

section \<open>Collaborators outside the source files\<close>

text \<open>
  What the client remembers between calls: the Token Manager's token string, the
  Environment Storage, and (for the statements about network calls) the requests sent
  so far, oldest first.
\<close>

record session =
  tokenString :: "string option"
  storage :: "string \<rightharpoonup> jsval"
  sent :: "request list"

text \<open>
  The parts of the program's world that are no code under src/: the endpoint getter's
  URL and the storage key of the configuration, the Token Manager's decoder, the
  network, the provider collaborator, and the operations of the JavaScript platform and
  of lodash whose full definitions the model does not need (string to number
  conversion, the primitive of an array or object, the elements lodash visits in a
  collection that is no array). Every statement below holds for all of them.
\<close>

record env =
  app_endpoint :: string
  tokenUserDataName :: string
  jwt_decode :: "string \<Rightarrow> jsval"
  transport :: "request \<Rightarrow> jsval \<times> jsval"
  JSON_parse :: "jsval \<Rightarrow> jsval option"
  to_number :: "jsval \<Rightarrow> int option"
  to_primitive :: "jsval \<Rightarrow> string"
  collection_values :: "jsval \<Rightarrow> jsval list"
  provider_signup :: "jsval \<Rightarrow> session \<Rightarrow> outcome \<times> session"
  provider_login :: "jsval \<Rightarrow> session \<Rightarrow> outcome \<times> session"

text \<open>
  \<^verbatim>\<open>v == k\<close> for a number literal \<open>k\<close>, and \<^verbatim>\<open>s == v\<close> for a string \<open>s\<close>
  (the abstract equality of ECMAScript: a number equals a number; a string equals a
  string; a boolean is compared as 0 or 1; null and undefined equal neither a number nor
  a string; a string meets a number as a number; an object meets a primitive as its
  primitive).
\<close>

definition js_eq_num :: "env \<Rightarrow> jsval \<Rightarrow> int \<Rightarrow> bool" where
  "js_eq_num E v k =
     (case v of
        JNum n \<Rightarrow> n = k
      | JBool b \<Rightarrow> (if b then 1 else 0) = k
      | JUndefined \<Rightarrow> False
      | JNull \<Rightarrow> False
      | JStr s \<Rightarrow> to_number E v = Some k
      | JArr xs \<Rightarrow> to_number E v = Some k
      | JObj kvs \<Rightarrow> to_number E v = Some k)"

definition js_eq_str :: "env \<Rightarrow> string \<Rightarrow> jsval \<Rightarrow> bool" where
  "js_eq_str E s v =
     (case v of
        JStr t \<Rightarrow> s = t
      | JNum n \<Rightarrow> to_number E (JStr s) = Some n
      | JBool b \<Rightarrow> to_number E (JStr s) = Some (if b then 1 else 0)
      | JUndefined \<Rightarrow> False
      | JNull \<Rightarrow> False
      | JArr xs \<Rightarrow> s = to_primitive E v
      | JObj kvs \<Rightarrow> s = to_primitive E v)"

text \<open>
  Modelled from the spec: the Token Manager (src/utils/token.js is not among the source
  files). It owns the token string; \<^verbatim>\<open>set string(value)\<close> stores it, \<^verbatim>\<open>delete()\<close>
  clears it, and \<^verbatim>\<open>get data\<close> is the decoded claims, null when there is no token or
  the token does not decode. The spec's token is a string, so a value that is no string
  leaves no token.
\<close>

definition token_set :: "jsval \<Rightarrow> session \<Rightarrow> session" where
  "token_set v st = st\<lparr>tokenString := (case v of JStr s \<Rightarrow> Some s | _ \<Rightarrow> None)\<rparr>"

definition token_delete :: "session \<Rightarrow> session" where
  "token_delete st = st\<lparr>tokenString := None\<rparr>"

definition token_string :: "session \<Rightarrow> jsval" where
  "token_string st = (case tokenString st of None \<Rightarrow> JNull | Some s \<Rightarrow> JStr s)"

definition token_data :: "env \<Rightarrow> session \<Rightarrow> jsval" where
  "token_data E st =
     (case tokenString st of
        None \<Rightarrow> JNull
      | Some s \<Rightarrow> if s = [] then JNull else jwt_decode E s)"

text \<open>
  Modelled from the spec: the Environment Storage (src/utils/envStorage.js is not among
  the source files): \<^verbatim>\<open>getItem\<close> of a missing key is null, and a value that was set
  is read back as it was.
\<close>

definition getItem :: "string \<Rightarrow> session \<Rightarrow> jsval" where
  "getItem k st = (case storage st k of None \<Rightarrow> JNull | Some v \<Rightarrow> v)"

definition setItem :: "string \<Rightarrow> jsval \<Rightarrow> session \<Rightarrow> session" where
  "setItem k v st = st\<lparr>storage := (storage st)(k \<mapsto> v)\<rparr>"

definition removeItem :: "string \<Rightarrow> session \<Rightarrow> session" where
  "removeItem k st = st\<lparr>storage := (storage st)(k := None)\<rparr>"

text \<open>
  The four verbs of the client as the facade calls them: the request is built with the
  token of the moment, handed to the transport, and the pair the transport calls back
  with is normalised by \<^verbatim>\<open>handleResponse\<close>.
\<close>

definition issue :: "env \<Rightarrow> request \<Rightarrow> session \<Rightarrow> outcome \<times> session" where
  "issue E req st = (handleResponse (JSON_parse E) (transport E req), st\<lparr>sent := sent st @ [req]\<rparr>)"

definition request_get :: "env \<Rightarrow> string \<Rightarrow> jsval \<Rightarrow> session \<Rightarrow> outcome \<times> session" where
  "request_get E url queryData st = issue E (get_request (tokenString st) url queryData) st"

definition request_post :: "env \<Rightarrow> string \<Rightarrow> jsval \<Rightarrow> session \<Rightarrow> outcome \<times> session" where
  "request_post E url d st = issue E (post_request (tokenString st) url d) st"

definition request_put :: "env \<Rightarrow> string \<Rightarrow> jsval \<Rightarrow> session \<Rightarrow> outcome \<times> session" where
  "request_put E url d st = issue E (put_request (tokenString st) url d) st"

definition request_del :: "env \<Rightarrow> string \<Rightarrow> jsval \<Rightarrow> session \<Rightarrow> outcome \<times> session" where
  "request_del E url d st = issue E (del_request (tokenString st) url d) st"

section \<open>Session Facade (src/index.js)\<close>

text \<open>
  The constructor. The instance keeps the name and the options; a truthy
  \<^verbatim>\<open>opts.logLevel\<close> replaces the configuration's log level, which is returned with the
  instance. \<^verbatim>\<open>throw\<close> is the \<open>Inl\<close> result.
\<close>

record matter =
  name :: jsval
  options :: jsval

definition constructor :: "jsval \<Rightarrow> jsval \<Rightarrow> jsval \<Rightarrow> js_error + (matter \<times> jsval)" where
  "constructor appName opts logLevel =
     (if \<not> truthy appName then Inl (Error ''Application name is required to use Matter'')
      else Inr (\<lparr>name = appName, options = (if truthy opts then opts else JUndefined)\<rparr>,
                if truthy opts \<and> truthy (js_prop opts ''logLevel'')
                then js_prop opts ''logLevel'' else logLevel))"

text \<open>\<^verbatim>\<open>get isLoggedIn\<close>, and the getter and the setter of \<^verbatim>\<open>currentUser\<close>.\<close>

definition isLoggedIn :: "session \<Rightarrow> bool" where
  "isLoggedIn st = truthy (token_string st)"

definition currentUser :: "env \<Rightarrow> session \<Rightarrow> jsval" where
  "currentUser E st =
     (if truthy (getItem (tokenUserDataName E) st) then getItem (tokenUserDataName E) st
      else JNull)"

definition set_currentUser :: "env \<Rightarrow> jsval \<Rightarrow> session \<Rightarrow> session" where
  "set_currentUser E userData st = setItem (tokenUserDataName E) userData st"

text \<open>The object \<^verbatim>\<open>{message: m, status: s}\<close> of a validation rejection.\<close>

definition failure :: "string \<Rightarrow> string \<Rightarrow> jsval" where
  "failure m s = JObj [(''message'', JStr m), (''status'', JStr s)]"

text \<open>
  \<^verbatim>\<open>signup\<close>. After the first guard the data is an object or a string; a string
  names a provider and goes to the collaborator, whose result is passed on.
\<close>

definition signup :: "env \<Rightarrow> jsval \<Rightarrow> session \<Rightarrow> outcome \<times> session" where
  "signup E signupData st =
     (if \<not> truthy signupData \<or> (\<not> isObject signupData \<and> \<not> isString signupData) then
        (Rejected (failure ''Signup data is required to signup.'' ''NULL_DATA''), st)
      else if isObject signupData then
        (if \<not> truthy (js_prop signupData ''username'') \<and> \<not> truthy (js_prop signupData ''email'') then
           (Rejected (failure ''Email or Username required to signup.'' ''ID_REQUIRED''), st)
         else if \<not> truthy (js_prop signupData ''password'') then
           (Rejected (failure ''Password is required to signup.'' ''PASS_REQUIRED''), st)
         else
           (case request_post E (app_endpoint E @ ''/signup'') signupData st of
              (Resolved response, st1) \<Rightarrow>
                (Resolved (if has response ''account'' then js_prop response ''account''
                           else response), st1)
            | (other, st1) \<Rightarrow> (other, st1)))
      else provider_signup E signupData st)"

text \<open>
  \<^verbatim>\<open>login\<close>. The handler of the request's rejection: a status of 409 or 400
  replaces the error by \<^verbatim>\<open>errRes.response.text\<close>, a read that throws when the
  error has no \<^verbatim>\<open>response\<close>.
\<close>

definition login_catch :: "env \<Rightarrow> jsval \<Rightarrow> session \<Rightarrow> outcome \<times> session" where
  "login_catch E errRes st =
     (case js_get errRes ''status'' of
        Inl e \<Rightarrow> (Raised e, st)
      | Inr s \<Rightarrow>
          if js_eq_num E s 409 \<or> js_eq_num E s 400 then
            (case js_get (js_prop errRes ''response'') ''text'' of
               Inl e \<Rightarrow> (Raised e, st)
             | Inr t \<Rightarrow> (Rejected t, st))
          else (Rejected errRes, st))"

text \<open>
  The handler of the request's success: a body whose \<^verbatim>\<open>data.status\<close> is 409 is
  rejected (and so reaches the handler above); otherwise the token of the response is
  stored, the account is taken from the response, from the token's claims or from the
  token string, written to the storage and returned.
\<close>

definition login_then :: "env \<Rightarrow> jsval \<Rightarrow> session \<Rightarrow> outcome \<times> session" where
  "login_then E response st =
     (if has response ''data'' \<and> has (js_prop response ''data'') ''status''
         \<and> js_eq_num E (js_prop (js_prop response ''data'') ''status'') 409 then
        login_catch E (js_prop response ''data'') st
      else
        (let st1 = (if has response ''token'' then token_set (js_prop response ''token'') st
                    else st);
             tdata = token_data E st1;
             userAccount =
               (if has response ''account'' then js_prop response ''account''
                else if truthy tdata then
                  (if truthy (js_prop tdata ''un'') then
                     JObj [(''username'', js_prop tdata ''un''),
                           (''name'', if truthy (js_prop tdata ''n'')
                                      then js_prop tdata ''n'' else JNull),
                           (''authrocketId'', if truthy (js_prop tdata ''uid'')
                                              then js_prop tdata ''uid'' else JNull)]
                   else tdata)
                else JObj [(''token'', token_string st1)])
         in (Resolved userAccount, setItem (tokenUserDataName E) userAccount st1)))"

definition login :: "env \<Rightarrow> jsval \<Rightarrow> session \<Rightarrow> outcome \<times> session" where
  "login E loginData st =
     (if \<not> truthy loginData \<or> (\<not> isObject loginData \<and> \<not> isString loginData) then
        (Rejected (failure ''Login data is required to login.'' ''DATA_REQUIRED''), st)
      else if isObject loginData then
        (if \<not> truthy (js_prop loginData ''username'') \<and> \<not> truthy (js_prop loginData ''email'') then
           (Rejected (failure ''Email or Username required to login.'' ''ID_REQUIRED''), st)
         else if \<not> truthy (js_prop loginData ''password'')
                 \<or> js_prop loginData ''password'' = JStr [] then
           (Rejected (failure ''Password is required to login.'' ''PASS_REQUIRED''), st)
         else
           (case request_put E (app_endpoint E @ ''/login'') loginData st of
              (Resolved response, st1) \<Rightarrow> login_then E response st1
            | (Rejected errRes, st1) \<Rightarrow> login_catch E errRes st1
            | (other, st1) \<Rightarrow> (other, st1)))
      else provider_login E loginData st)"

text \<open>
  \<^verbatim>\<open>logout\<close>. The success handler sets the current user to null and deletes the
  token; the rejection handler removes the stored account and deletes the token. Neither
  runs while the request's promise is unsettled.
\<close>

definition logout :: "env \<Rightarrow> session \<Rightarrow> outcome \<times> session" where
  "logout E st =
     (if \<not> isLoggedIn st then
        (Rejected (failure ''No logged in account to log out.'' ''NULL_ACCOUNT''), st)
      else
        (case request_put E (app_endpoint E @ ''/logout'') JUndefined st of
           (Resolved response, st1) \<Rightarrow>
             (Resolved response, token_delete (set_currentUser E JNull st1))
         | (Rejected errRes, st1) \<Rightarrow>
             (Rejected errRes, token_delete (removeItem (tokenUserDataName E) st1))
         | (Raised e, st1) \<Rightarrow>
             (Raised e, token_delete (removeItem (tokenUserDataName E) st1))
         | (Unsettled e, st1) \<Rightarrow> (Unsettled e, st1)))"

text \<open>\<^verbatim>\<open>getCurrentUser\<close>.\<close>

definition getCurrentUser :: "env \<Rightarrow> session \<Rightarrow> outcome \<times> session" where
  "getCurrentUser E st =
     (if truthy (currentUser E st) then (Resolved (currentUser E st), st)
      else if \<not> isLoggedIn st then (Resolved JNull, st)
      else
        (case request_get E (app_endpoint E @ ''/user'') JUndefined st of
           (Resolved response, st1) \<Rightarrow> (Resolved response, set_currentUser E response st1)
         | (Rejected errRes, st1) \<Rightarrow>
             (case js_get errRes ''status'' of
                Inl e \<Rightarrow> (Raised e, st1)
              | Inr s \<Rightarrow>
                  if js_eq_num E s 401 then (Resolved JNull, token_delete st1)
                  else (Rejected errRes, st1))
         | (other, st1) \<Rightarrow> (other, st1)))"

subsection \<open>Group membership\<close>

text \<open>\<^verbatim>\<open>s.split(',')\<close>: the pieces between the commas, at least one.\<close>

fun split_comma :: "string \<Rightarrow> string list" where
  "split_comma [] = [[]]"
| "split_comma (c # cs) =
     (if c = CHR '','' then [] # split_comma cs
      else (case split_comma cs of [] \<Rightarrow> [[c]] | p # ps \<Rightarrow> (c # p) # ps))"

text \<open>
  lodash's \<^verbatim>\<open>any(collection, f)\<close>: the elements are visited in order until \<open>f\<close>
  answers true; an exception of \<open>f\<close> ends the visit.
\<close>

fun any_of :: "(jsval \<Rightarrow> js_error + bool) \<Rightarrow> jsval list \<Rightarrow> js_error + bool" where
  "any_of f [] = Inr False"
| "any_of f (x # xs) =
     (case f x of Inl e \<Rightarrow> Inl e | Inr b \<Rightarrow> if b then Inr True else any_of f xs)"

definition lodash_any :: "env \<Rightarrow> jsval \<Rightarrow> (jsval \<Rightarrow> js_error + bool) \<Rightarrow> js_error + bool" where
  "lodash_any E collection f =
     any_of f (case collection of JArr xs \<Rightarrow> xs | _ \<Rightarrow> collection_values E collection)"

text \<open>
  lodash's \<^verbatim>\<open>every(collection, predicate)\<close> with a predicate that is neither a
  function nor an object: lodash turns such a predicate into the accessor of the
  property it names (\<^verbatim>\<open>_.property\<close>), here the property \<^verbatim>\<open>true\<close>, and asks that the
  property be truthy on every element. An element that is null or undefined has no
  property.
\<close>

definition lodash_property :: "string \<Rightarrow> jsval \<Rightarrow> jsval" where
  "lodash_property k v = (case js_get v k of Inl e \<Rightarrow> JUndefined | Inr p \<Rightarrow> p)"

definition lodash_every :: "jsval list \<Rightarrow> string \<Rightarrow> bool" where
  "lodash_every xs k = list_all (\<lambda>x. truthy (lodash_property k x)) xs"

text \<open>
  The calls of a \<^verbatim>\<open>map\<close> over an array, left to right, up to the first that throws.
\<close>

fun sequence :: "(js_error + 'a) list \<Rightarrow> js_error + 'a list" where
  "sequence [] = Inr []"
| "sequence (r # rs) =
     (case r of
        Inl e \<Rightarrow> Inl e
      | Inr x \<Rightarrow> (case sequence rs of Inl e \<Rightarrow> Inl e | Inr xs \<Rightarrow> Inr (x # xs)))"

text \<open>
  The single group of \<^verbatim>\<open>isInGroup\<close>: \<^verbatim>\<open>this.token.data.groups || []\<close> is searched
  for a group whose \<^verbatim>\<open>name\<close> equals the name asked for (\<^verbatim>\<open>==\<close>).
\<close>

definition in_token_groups :: "env \<Rightarrow> session \<Rightarrow> string \<Rightarrow> js_error + bool" where
  "in_token_groups E st groupName =
     (case js_get (token_data E st) ''groups'' of
        Inl e \<Rightarrow> Inl e
      | Inr g \<Rightarrow>
          lodash_any E (if truthy g then g else JArr [])
            (\<lambda>group. case js_get group ''name'' of
                        Inl e \<Rightarrow> Inl e
                      | Inr n \<Rightarrow> Inr (js_eq_str E groupName n)))"

text \<open>The measure under which the two group checks call each other.\<close>

fun group_weight :: "jsval \<Rightarrow> nat" where
  "group_weight (JStr s) = 1 + 3 * length (filter (\<lambda>c. c = CHR '','') s)"
| "group_weight (JArr xs) = 1 + sum_list (map group_weight xs)"
| "group_weight (JObj kvs) = 1 + sum_list (map (\<lambda>kv. group_weight (snd kv)) kvs)"
| "group_weight v = 1"

lemma split_comma_length:
  "length (split_comma s) = Suc (length (filter (\<lambda>c. c = CHR '','') s))"
  by (induction s) (auto split: list.splits)

lemma split_comma_not_Nil: "split_comma s \<noteq> []"
  by (induction s) (auto split: list.splits)

lemma split_comma_no_comma: "p \<in> set (split_comma s) \<Longrightarrow> CHR '','' \<notin> set p"
  by (induction s arbitrary: p) (auto split: list.splits if_splits)

lemma filter_comma_empty: "CHR '','' \<notin> set p \<Longrightarrow> filter (\<lambda>c. c = CHR '','') p = []"
  by (induction p) auto

lemma sum_list_all_one: "\<forall>p \<in> set ps. f p = (1::nat) \<Longrightarrow> sum_list (map f ps) = length ps"
  by (induction ps) auto

lemma group_weight_pieces:
  "sum_list (map (group_weight \<circ> JStr) (split_comma s)) = length (split_comma s)"
  by (rule sum_list_all_one) (simp add: split_comma_no_comma filter_comma_empty)

lemma group_weight_elem: "x \<in> set xs \<Longrightarrow> group_weight x \<le> sum_list (map group_weight xs)"
  by (induction xs) auto

lemma group_weight_lookup:
  "map_of kvs k = Some v \<Longrightarrow> group_weight v \<le> sum_list (map (\<lambda>kv. group_weight (snd kv)) kvs)"
  by (induction kvs) (auto split: if_splits)

lemma group_weight_prop: "has x k \<Longrightarrow> group_weight (js_prop x k) < group_weight x"
proof (cases x)
  case (JObj kvs)
  assume "has x k"
  with JObj obtain v where v: "map_of kvs k = Some v" by auto
  from group_weight_lookup [OF v] JObj v show ?thesis by simp
qed simp_all

lemma hd_split_comma_weight: "group_weight (JStr (hd (split_comma s))) = 1"
  using split_comma_no_comma [of "hd (split_comma s)" s] split_comma_not_Nil [of s]
  by (simp add: filter_comma_empty)


text \<open>
  \<^verbatim>\<open>isInGroup\<close> and \<^verbatim>\<open>isInGroups\<close>, by the shape of the argument. In each the
  source first answers false when nobody is logged in, then when the argument is falsy;
  an argument that is neither a string nor an array is answered false on every path.
\<close>

function (sequential) isInGroup :: "env \<Rightarrow> session \<Rightarrow> jsval \<Rightarrow> js_error + bool"
  and isInGroups :: "env \<Rightarrow> session \<Rightarrow> jsval \<Rightarrow> js_error + bool" where
  "isInGroup E st (JStr groupName) =
     (if \<not> isLoggedIn st then Inr False
      else if \<not> truthy (JStr groupName) then Inr False
      else if length (split_comma groupName) > 1 then
        isInGroups E st (JArr (map JStr (split_comma groupName)))
      else in_token_groups E st groupName)"
| "isInGroup E st (JArr xs) =
     (if \<not> isLoggedIn st then Inr False
      else if \<not> truthy (JArr xs) then Inr False
      else isInGroups E st (JArr xs))"
| "isInGroup E st v = Inr False"
| "isInGroups E st (JArr xs) =
     (if \<not> isLoggedIn st then Inr False
      else if \<not> truthy (JArr xs) then Inr False
      else
        (case sequence (map (\<lambda>group.
                 if isString group then isInGroup E st group
                 else if has group ''name'' then isInGroup E st (js_prop group ''name'')
                 else Inr False) xs) of
           Inl e \<Rightarrow> Inl e
         | Inr bs \<Rightarrow> Inr (lodash_every (map JBool bs) ''true'')))"
| "isInGroups E st (JStr s) =
     (if \<not> isLoggedIn st then Inr False
      else if \<not> truthy (JStr s) then Inr False
      else if length (split_comma s) > 1 then
        isInGroups E st (JArr (map JStr (split_comma s)))
      else isInGroup E st (JStr (hd (split_comma s))))"
| "isInGroups E st v = Inr False"
  by pat_completeness auto

termination isInGroup
proof (relation "measure (\<lambda>x. case x of
          Inl (E, st, v) \<Rightarrow> 3 * group_weight v + (case v of JStr s \<Rightarrow> 0 | _ \<Rightarrow> 2)
        | Inr (E, st, v) \<Rightarrow> 3 * group_weight v + 1)", goal_cases)
  case 1
  show ?case by simp
next
  case (2 E st groupName)
  then show ?case
    by (cases "filter (\<lambda>c. c = CHR '','') groupName")
       (simp_all add: group_weight_pieces split_comma_length)
next
  case (3 E st xs)
  then show ?case by simp
next
  case (4 E st xs x)
  then show ?case
    using group_weight_elem [of x xs] by (cases x) auto
next
  case (5 E st xs x)
  then show ?case
    using group_weight_elem [of x xs] group_weight_prop [of x "''name''"]
    by (auto split: jsval.splits)
next
  case (6 E st s)
  then show ?case
    by (cases "filter (\<lambda>c. c = CHR '','') s")
       (simp_all add: group_weight_pieces split_comma_length)
next
  case (7 E st s)
  then show ?case
    using hd_split_comma_weight [of s] by simp
qed

section \<open>Example collaborators\<close>

text \<open>
  A concrete world for the instances below: a transport that calls back every request
  with success and the body \<^verbatim>\<open>ok\<close>, a decoder whose claims hold the one group \<^verbatim>\<open>admins\<close>, a parser
  that reads the JSON text \<^verbatim>\<open>{"a":1}\<close> and null (whose string is \<^verbatim>\<open>null\<close>) and
  refuses every other value, and a session that holds the token
  \<^verbatim>\<open>T\<close>.
\<close>

definition example_env :: env where
  "example_env =
     \<lparr>app_endpoint = ''https://server/apps/app'',
      tokenUserDataName = ''currentUser'',
      jwt_decode = (\<lambda>s. JObj [(''groups'', JArr [JObj [(''name'', JStr ''admins'')]])]),
      transport = (\<lambda>r. (JNull, JObj [(''body'', JStr ''ok'')])),
      JSON_parse = (\<lambda>v. if v = JStr ''{\"a\":1}'' then Some (JObj [(''a'', JNum 1)])
                        else if v = JNull then Some JNull else None),
      to_number = (\<lambda>v. None),
      to_primitive = (\<lambda>v. []),
      collection_values = (\<lambda>v. []),
      provider_signup = (\<lambda>d st. (Resolved d, st)),
      provider_login = (\<lambda>d st. (Resolved d, st))\<rparr>"

definition example_session :: session where
  "example_session = \<lparr>tokenString = Some ''T'', storage = Map.empty, sent = []\<rparr>"

text \<open>The same session with the account of the user cached in the storage.\<close>

definition cached_session :: session where
  "cached_session =
     \<lparr>tokenString = Some ''T'',
      storage = Map.empty(''currentUser'' \<mapsto> JObj [(''username'', JStr ''u'')]),
      sent = []\<rparr>"

text \<open>
  Variations of it: a decoder whose claims have the legacy short-name shape, a decoder
  whose claims hold a group with the empty name, a server that answers with an HTTP
  error whose JSON body has no \<^verbatim>\<open>error\<close> field, and a server that answers 401 with
  no body (superagent's error then carries the status, the status text as its message,
  and the response).
\<close>

definition legacy_env :: env where
  "legacy_env =
     example_env\<lparr>jwt_decode := (\<lambda>s. JObj [(''un'', JStr ''bob''), (''uid'', JNum 7)])\<rparr>"

definition unnamed_group_env :: env where
  "unnamed_group_env =
     example_env\<lparr>jwt_decode := (\<lambda>s. JObj [(''groups'', JArr [JObj [(''name'', JStr [])]])])\<rparr>"

definition server_error_env :: env where
  "server_error_env =
     example_env\<lparr>transport := (\<lambda>r.
       (JObj [(''status'', JNum 500), (''message'', JStr ''Internal Server Error''),
              (''response'', JObj [(''body'', JObj [])])], JUndefined))\<rparr>"

definition unauthorized_env :: env where
  "unauthorized_env =
     example_env\<lparr>transport := (\<lambda>r.
       (JObj [(''status'', JNum 401), (''message'', JStr ''Unauthorized''),
              (''response'', JObj [(''body'', JNull)])], JUndefined))\<rparr>"

definition credentials :: jsval where
  "credentials = JObj [(''username'', JStr ''u''), (''password'', JStr ''p'')]"

section \<open>Reading results and claims\<close>

text \<open>The \<^verbatim>\<open>status\<close> of a rejection and the value of a resolution.\<close>

definition rejection_status :: "outcome \<times> session \<Rightarrow> jsval" where
  "rejection_status r = (case fst r of Rejected v \<Rightarrow> js_prop v ''status'' | _ \<Rightarrow> JUndefined)"

definition resolved_value :: "outcome \<times> session \<Rightarrow> jsval" where
  "resolved_value r = (case fst r of Resolved v \<Rightarrow> v | _ \<Rightarrow> JUndefined)"

text \<open>
  Claims of the shape the data model gives them: an object whose \<^verbatim>\<open>groups\<close>, when
  there are any, is an array of objects, each with a string for its \<^verbatim>\<open>name\<close> or with
  none.
\<close>

definition well_formed_group :: "jsval \<Rightarrow> bool" where
  "well_formed_group g =
     (case g of
        JObj kvs \<Rightarrow>
          (case js_prop g ''name'' of
             JStr n \<Rightarrow> True | JUndefined \<Rightarrow> True | JNull \<Rightarrow> True | _ \<Rightarrow> False)
      | _ \<Rightarrow> False)"

definition claim_groups :: "jsval \<Rightarrow> jsval list" where
  "claim_groups tdata = (case js_prop tdata ''groups'' of JArr gs \<Rightarrow> gs | _ \<Rightarrow> [])"

definition well_formed_claims :: "jsval \<Rightarrow> bool" where
  "well_formed_claims tdata =
     (case tdata of
        JObj kvs \<Rightarrow>
          (case js_prop tdata ''groups'' of
             JArr gs \<Rightarrow> list_all well_formed_group gs
           | v \<Rightarrow> \<not> truthy v)
      | _ \<Rightarrow> False)"

section \<open>Properties of the Request Client\<close>

lemma addAuthHeader_headers:
  "req_headers r = [] \<Longrightarrow>
   req_headers (addAuthHeader tok r) =
     (case tok of None \<Rightarrow> []
      | Some s \<Rightarrow> if s = [] then [] else [(''Authorization'', ''Bearer '' @ s)])"
  by (simp add: addAuthHeader_def set_header_def split: option.splits)

lemma verb_headers_empty:
  "req_headers (superagent m u) = []"
  "req_headers (query q r) = req_headers r"
  "req_headers (send d r) = req_headers r"
  "req_headers (superagent_put u d) = []"
  by (simp_all add: superagent_def query_def send_def superagent_put_def Let_def)

text \<open>
  C1. For each of the four verbs the outgoing request carries the header
  \<^verbatim>\<open>Authorization: Bearer <token>\<close> exactly when the Token Manager's string is present
  and not empty; otherwise it carries no \<^verbatim>\<open>Authorization\<close> header.
\<close>

theorem auth_header_iff_token:
  "map_of (req_headers (get_request tok url d)) ''Authorization'' =
     (case tok of None \<Rightarrow> None | Some s \<Rightarrow> if s = [] then None else Some (''Bearer '' @ s))
   \<and> map_of (req_headers (post_request tok url d)) ''Authorization'' =
     (case tok of None \<Rightarrow> None | Some s \<Rightarrow> if s = [] then None else Some (''Bearer '' @ s))
   \<and> map_of (req_headers (put_request tok url d)) ''Authorization'' =
     (case tok of None \<Rightarrow> None | Some s \<Rightarrow> if s = [] then None else Some (''Bearer '' @ s))
   \<and> map_of (req_headers (del_request tok url d)) ''Authorization'' =
     (case tok of None \<Rightarrow> None | Some s \<Rightarrow> if s = [] then None else Some (''Bearer '' @ s))"
  by (simp add: get_request_def post_request_def put_request_def del_request_def Let_def
      addAuthHeader_headers verb_headers_empty split: option.splits)

text \<open>
  C7. The delete operation of the client builds its request with
  \<^verbatim>\<open>superagent.put\<close>: whatever the token, the URL and the data, the request that goes
  out is a PUT (with the data as its body when the data is truthy), not a DELETE.
\<close>

theorem del_request_is_put:
  "req_method (del_request tok url d) = PUT
   \<and> req_method (del_request tok url d) \<noteq> DELETE
   \<and> req_body (del_request tok url d) = (if truthy d then d else JUndefined)
   \<and> req_method (get_request tok url d) = GET
   \<and> req_method (post_request tok url d) = POST
   \<and> req_method (put_request tok url d) = PUT"
  by (simp add: get_request_def post_request_def put_request_def del_request_def Let_def
      addAuthHeader_def set_header_def superagent_def query_def send_def superagent_put_def
      split: option.splits)

text \<open>
  C6. A reply that is no JSON reaches \<^verbatim>\<open>handleResponse\<close> with its text in
  \<^verbatim>\<open>res.text\<close>, and \<^verbatim>\<open>handleResponse\<close> reads \<^verbatim>\<open>res.body\<close> alone: whatever the
  parser, the result for such a reply does not depend on the text. The reply \<^verbatim>\<open>ok\<close>
  resolves to the empty object (node build) or to null (browser build), where the claim
  has the string \<^verbatim>\<open>ok\<close>. The JSON reply \<^verbatim>\<open>{"a":1}\<close> does resolve to the object
  \<^verbatim>\<open>{a: 1}\<close>.
\<close>

theorem handleResponse_text_reply_loses_text:
  "handleResponse parse (JNull, text_reply b t) = handleResponse parse (JNull, text_reply b t')
   \<and> handleResponse (JSON_parse example_env) (JNull, text_reply NodeBuild ''ok'') =
       Resolved (JObj [])
   \<and> handleResponse (JSON_parse example_env) (JNull, text_reply BrowserBuild ''ok'') =
       Resolved JNull
   \<and> handleResponse (JSON_parse example_env)
         (JNull, json_reply ''{\"a\":1}'' (JObj [(''a'', JNum 1)])) =
       Resolved (JObj [(''a'', JNum 1)])"
  by (simp add: handleResponse_def js_get_def text_reply_def json_reply_def example_env_def)

text \<open>
  What does hold of the success branch: with no error and a response object, the client
  resolves with what \<^verbatim>\<open>JSON.parse\<close> makes of \<^verbatim>\<open>res.body\<close>, and with \<^verbatim>\<open>res.body\<close>
  itself when \<^verbatim>\<open>JSON.parse\<close> throws; it neither rejects nor lets an exception escape.
\<close>

theorem handleResponse_success:
  assumes "\<not> truthy errorRes" and "res \<noteq> JUndefined" and "res \<noteq> JNull"
  shows "handleResponse parse (errorRes, res) =
           Resolved (case parse (js_prop res ''body'') of
                       Some v \<Rightarrow> v | None \<Rightarrow> js_prop res ''body'')"
  using assms by (simp add: handleResponse_def js_get_def split: option.splits)

theorem handleResponse_success_witness:
  "handleResponse (JSON_parse example_env) (JNull, JObj [(''body'', JStr ''{\"a\":1}'')]) =
     Resolved (JObj [(''a'', JNum 1)])"
  using handleResponse_success [where errorRes = JNull and parse = "JSON_parse example_env"
      and res = "JObj [(''body'', JStr ''{\"a\":1}'')]"]
  by (simp add: example_env_def)

text \<open>
  C10. The constructor throws (synchronously: the call has no result) when the
  application name is falsy, so in particular when it is missing or the empty string,
  and otherwise returns an instance whose \<^verbatim>\<open>name\<close> is the name given.
\<close>

theorem constructor_requires_name:
  "(\<not> truthy appName \<longrightarrow>
      constructor appName opts logLevel =
        Inl (Error ''Application name is required to use Matter''))
   \<and> (truthy appName \<longrightarrow>
        (\<exists>m l. constructor appName opts logLevel = Inr (m, l) \<and> name m = appName))
   \<and> constructor JUndefined opts logLevel =
        Inl (Error ''Application name is required to use Matter'')
   \<and> constructor (JStr []) opts logLevel =
        Inl (Error ''Application name is required to use Matter'')
   \<and> (s \<noteq> [] \<longrightarrow>
        (\<exists>m l. constructor (JStr s) opts logLevel = Inr (m, l) \<and> name m = JStr s))"
  by (simp add: constructor_def)

theorem constructor_requires_name_witness:
  "(\<exists>m l. constructor (JStr ''app'') JUndefined JUndefined = Inr (m, l) \<and> name m = JStr ''app'')
   \<and> constructor (JStr []) JUndefined JUndefined =
        Inl (Error ''Application name is required to use Matter'')"
  using constructor_requires_name [where appName = "JStr ''app''" and opts = JUndefined
      and logLevel = JUndefined]
  by simp

section \<open>Properties of the Session Facade\<close>

subsection \<open>Validation of signup and login\<close>

text \<open>
  C5, as the code has it. Signup and login validate before any request is built: data
  that is falsy, or neither an object nor a string, is rejected with status
  \<^verbatim>\<open>NULL_DATA\<close> by signup and with status \<^verbatim>\<open>DATA_REQUIRED\<close> by login; an object
  with neither a truthy \<^verbatim>\<open>username\<close> nor a truthy \<^verbatim>\<open>email\<close> is rejected with
  \<^verbatim>\<open>ID_REQUIRED\<close> (so \<^verbatim>\<open>login({})\<close> is); an object with an identifier and no truthy
  \<^verbatim>\<open>password\<close> is rejected with \<^verbatim>\<open>PASS_REQUIRED\<close>. The session comes back as it
  was, so nothing was sent.
\<close>

theorem validation_fails_fast:
  "(\<not> truthy d \<or> (\<not> isObject d \<and> \<not> isString d) \<longrightarrow>
      signup E d st =
        (Rejected (failure ''Signup data is required to signup.'' ''NULL_DATA''), st)
      \<and> login E d st =
        (Rejected (failure ''Login data is required to login.'' ''DATA_REQUIRED''), st))
   \<and> (isObject d \<and> \<not> truthy (js_prop d ''username'') \<and> \<not> truthy (js_prop d ''email'') \<longrightarrow>
      signup E d st =
        (Rejected (failure ''Email or Username required to signup.'' ''ID_REQUIRED''), st)
      \<and> login E d st =
        (Rejected (failure ''Email or Username required to login.'' ''ID_REQUIRED''), st))
   \<and> (isObject d \<and> (truthy (js_prop d ''username'') \<or> truthy (js_prop d ''email''))
        \<and> \<not> truthy (js_prop d ''password'') \<longrightarrow>
      signup E d st =
        (Rejected (failure ''Password is required to signup.'' ''PASS_REQUIRED''), st)
      \<and> login E d st =
        (Rejected (failure ''Password is required to login.'' ''PASS_REQUIRED''), st))
   \<and> login E (JObj []) st =
        (Rejected (failure ''Email or Username required to login.'' ''ID_REQUIRED''), st)"
  by (cases d) (auto simp: signup_def login_def)

theorem validation_fails_fast_witness:
  "signup example_env JNull example_session =
     (Rejected (failure ''Signup data is required to signup.'' ''NULL_DATA''), example_session)
   \<and> login example_env JNull example_session =
     (Rejected (failure ''Login data is required to login.'' ''DATA_REQUIRED''), example_session)
   \<and> login example_env (JObj []) example_session =
     (Rejected (failure ''Email or Username required to login.'' ''ID_REQUIRED''), example_session)
   \<and> sent (snd (login example_env (JObj []) example_session)) = []"
  using validation_fails_fast [where d = JNull and E = example_env and st = example_session]
  by (simp add: example_session_def)

text \<open>
  The claim as stated gives \<^verbatim>\<open>NULL_DATA\<close> to login as well; \<^verbatim>\<open>login(null)\<close> is
  rejected with \<^verbatim>\<open>DATA_REQUIRED\<close>.
\<close>

theorem login_null_data_counterexample:
  "rejection_status (login example_env JNull example_session) = JStr ''DATA_REQUIRED''
   \<and> rejection_status (login example_env JNull example_session) \<noteq> JStr ''NULL_DATA''"
  by (simp add: rejection_status_def login_def failure_def)

subsection \<open>The account of a login\<close>

text \<open>
  C8, as the code has it. When the login request of valid credentials resolves with a
  response that is not the 409 body and has no \<^verbatim>\<open>account\<close>, and the claims of the
  token then held (the response's token, when it has one) have a truthy \<^verbatim>\<open>un\<close>, login
  resolves with \<^verbatim>\<open>{username, name, authrocketId}\<close>: \<^verbatim>\<open>un\<close>, then \<^verbatim>\<open>n\<close> and
  \<^verbatim>\<open>uid\<close>, each null when it is falsy.
\<close>

theorem login_legacy_account:
  assumes "isObject loginData"
    and "truthy (js_prop loginData ''username'') \<or> truthy (js_prop loginData ''email'')"
    and "truthy (js_prop loginData ''password'')"
    and "request_put E (app_endpoint E @ ''/login'') loginData st = (Resolved response, st1)"
    and "\<not> (has response ''data'' \<and> has (js_prop response ''data'') ''status''
             \<and> js_eq_num E (js_prop (js_prop response ''data'') ''status'') 409)"
    and "\<not> has response ''account''"
    and "tdata = token_data E (if has response ''token''
                               then token_set (js_prop response ''token'') st1 else st1)"
    and "truthy (js_prop tdata ''un'')"
  shows "fst (login E loginData st) =
           Resolved (JObj [(''username'', js_prop tdata ''un''),
                           (''name'', if truthy (js_prop tdata ''n'')
                                      then js_prop tdata ''n'' else JNull),
                           (''authrocketId'', if truthy (js_prop tdata ''uid'')
                                              then js_prop tdata ''uid'' else JNull)])"
proof -
  from assms(8) have "truthy tdata" by (cases tdata) simp_all
  moreover from assms(1) have "truthy loginData" "\<not> (\<not> isObject loginData \<and> \<not> isString loginData)"
    by (cases loginData; simp)+
  moreover from assms(3) have "js_prop loginData ''password'' \<noteq> JStr []" by auto
  ultimately show ?thesis
    using assms by (auto simp: login_def login_then_def Let_def)
qed

theorem login_legacy_account_witness:
  "fst (login legacy_env credentials example_session) =
     Resolved (JObj [(''username'', JStr ''bob''), (''name'', JNull), (''authrocketId'', JNum 7)])"
proof -
  have "request_put legacy_env (app_endpoint legacy_env @ ''/login'') credentials example_session =
          (Resolved (JStr ''ok''),
           example_session\<lparr>sent := [put_request (Some ''T'') ''https://server/apps/app/login'' credentials]\<rparr>)"
    by (simp add: request_put_def issue_def handleResponse_def js_get_def legacy_env_def
        example_env_def example_session_def)
  from login_legacy_account [OF _ _ _ this, of "token_data legacy_env example_session"]
  show ?thesis
    by (simp add: credentials_def token_data_def legacy_env_def example_env_def
        example_session_def)
qed

text \<open>
  The claim as stated names the third field \<^verbatim>\<open>providerId\<close>; the account has an
  \<^verbatim>\<open>authrocketId\<close> and no \<^verbatim>\<open>providerId\<close>.
\<close>

theorem login_legacy_account_counterexample:
  "has (resolved_value (login legacy_env credentials example_session)) ''authrocketId''
   \<and> \<not> has (resolved_value (login legacy_env credentials example_session)) ''providerId''"
  by (simp add: resolved_value_def login_def login_then_def Let_def credentials_def
      request_put_def issue_def handleResponse_def js_get_def legacy_env_def example_env_def
      example_session_def token_data_def)

subsection \<open>Group membership\<close>

lemma split_comma_single: "(Suc 0 < length (split_comma x)) = (CHR '','' \<in> set x)"
  by (simp add: split_comma_length filter_empty_conv)

lemma any_of_well_formed:
  "list_all well_formed_group gs \<Longrightarrow>
   any_of (\<lambda>group. case js_get group ''name'' of
                     Inl e \<Rightarrow> Inl e
                   | Inr n \<Rightarrow> Inr (js_eq_str E x n)) gs =
     Inr (\<exists>g \<in> set gs. js_prop g ''name'' = JStr x)"
proof (induction gs)
  case Nil
  show ?case by simp
next
  case (Cons g gs)
  from Cons.prems have g: "well_formed_group g" and gs: "list_all well_formed_group gs"
    by simp_all
  from g have get: "js_get g ''name'' = Inr (js_prop g ''name'')"
    by (cases g) (simp_all add: well_formed_group_def js_get_def)
  from g have eq: "js_eq_str E x (js_prop g ''name'') = (js_prop g ''name'' = JStr x)"
    by (cases g; cases "js_prop g ''name''")
       (auto simp: well_formed_group_def js_eq_str_def)
  show ?case using Cons.IH [OF gs] by (simp add: get eq)
qed

lemma in_token_groups_well_formed:
  assumes "well_formed_claims (token_data E st)"
  shows "in_token_groups E st x =
           Inr (\<exists>g \<in> set (claim_groups (token_data E st)). js_prop g ''name'' = JStr x)"
proof (cases "token_data E st")
  case (JObj kvs)
  show ?thesis
  proof (cases "js_prop (JObj kvs) ''groups''")
    case (JArr gs)
    with assms JObj have "list_all well_formed_group gs"
      by (simp add: well_formed_claims_def)
    from any_of_well_formed [OF this] JObj JArr show ?thesis
      by (simp add: in_token_groups_def js_get_def lodash_any_def claim_groups_def)
  qed (use assms JObj in \<open>simp_all add: well_formed_claims_def in_token_groups_def js_get_def
         lodash_any_def claim_groups_def\<close>)
qed (use assms in \<open>simp_all add: well_formed_claims_def\<close>)

text \<open>
  C9, as the code has it. With a token and well-formed claims, \<^verbatim>\<open>isInGroup\<close> of a
  string that is not empty and has no comma is true exactly when some group of the
  claims has that very string as its name. The empty string is answered false, whatever
  the session and the claims. A string with a comma is answered by
  \<^verbatim>\<open>isInGroups\<close> on its pieces, an array by \<^verbatim>\<open>isInGroups\<close> on the array, any other
  shape by false, and everything by false when nobody is logged in.
\<close>

theorem isInGroup_dispatch:
  "(isLoggedIn st \<and> well_formed_claims (token_data E st) \<and> x \<noteq> [] \<and> CHR '','' \<notin> set x \<longrightarrow>
      isInGroup E st (JStr x) =
        Inr (\<exists>g \<in> set (claim_groups (token_data E st)). js_prop g ''name'' = JStr x))
   \<and> (CHR '','' \<in> set x \<longrightarrow>
        isInGroup E st (JStr x) = isInGroups E st (JArr (map JStr (split_comma x))))
   \<and> isInGroup E st (JArr xs) = isInGroups E st (JArr xs)
   \<and> (\<not> isString v \<and> \<not> isArray v \<longrightarrow> isInGroup E st v = Inr False)
   \<and> (\<not> isLoggedIn st \<longrightarrow> isInGroup E st v = Inr False)
   \<and> isInGroup E st (JStr []) = Inr False"
proof (intro conjI impI)
  assume "isLoggedIn st \<and> well_formed_claims (token_data E st) \<and> x \<noteq> [] \<and> CHR '','' \<notin> set x"
  then show "isInGroup E st (JStr x) =
      Inr (\<exists>g \<in> set (claim_groups (token_data E st)). js_prop g ''name'' = JStr x)"
    by (simp add: split_comma_single in_token_groups_well_formed)
next
  assume "CHR '','' \<in> set x"
  then have "x \<noteq> []" by auto
  with \<open>CHR '','' \<in> set x\<close>
  show "isInGroup E st (JStr x) = isInGroups E st (JArr (map JStr (split_comma x)))"
    by (simp add: split_comma_single)
next
  show "isInGroup E st (JArr xs) = isInGroups E st (JArr xs)" by simp
next
  assume "\<not> isString v \<and> \<not> isArray v"
  then show "isInGroup E st v = Inr False" by (cases v) simp_all
next
  assume "\<not> isLoggedIn st"
  then show "isInGroup E st v = Inr False" by (cases v) simp_all
next
  show "isInGroup E st (JStr []) = Inr False" by simp
qed

theorem isInGroup_dispatch_witness:
  "isInGroup example_env example_session (JStr ''admins'') = Inr True
   \<and> isInGroup example_env example_session (JStr ''users'') = Inr False
   \<and> isInGroup example_env example_session (JStr ''admins,users'') =
       isInGroups example_env example_session (JArr [JStr ''admins'', JStr ''users''])
   \<and> isInGroup example_env example_session (JNum 5) = Inr False
   \<and> isInGroup example_env (example_session\<lparr>tokenString := None\<rparr>) (JStr ''admins'') = Inr False
   \<and> isInGroup example_env example_session (JStr []) = Inr False"
proof -
  have l: "isLoggedIn example_session"
    by (simp add: isLoggedIn_def token_string_def example_session_def)
  have a: "\<not> isLoggedIn (example_session\<lparr>tokenString := None\<rparr>)"
    by (simp add: isLoggedIn_def token_string_def)
  have d: "token_data example_env example_session =
             JObj [(''groups'', JArr [JObj [(''name'', JStr ''admins'')]])]"
    by (simp add: token_data_def example_env_def example_session_def)
  have w: "well_formed_claims (token_data example_env example_session)"
    by (simp add: d well_formed_claims_def well_formed_group_def)
  have g: "claim_groups (token_data example_env example_session) =
             [JObj [(''name'', JStr ''admins'')]]"
    by (simp add: d claim_groups_def)
  show ?thesis
    using isInGroup_dispatch [where E = example_env and st = example_session
        and x = "''admins''" and v = "JNum 5"]
      isInGroup_dispatch [where E = example_env and st = example_session
        and x = "''users''" and v = "JNum 5"]
      isInGroup_dispatch [where E = example_env and st = example_session
        and x = "''admins,users''" and v = "JNum 5"]
      isInGroup_dispatch [where E = example_env
        and st = "example_session\<lparr>tokenString := None\<rparr>" and v = "JStr ''admins''"]
    by (simp add: l a w g)
qed

text \<open>
  The claim as stated covers the empty string, which has no comma: with a group whose
  name is the empty string in the claims, \<^verbatim>\<open>isInGroup('')\<close> is still false, by the
  guard on a falsy argument.
\<close>

theorem isInGroup_empty_name_counterexample:
  "claim_groups (token_data unnamed_group_env example_session) = [JObj [(''name'', JStr [])]]
   \<and> isLoggedIn example_session
   \<and> isInGroup unnamed_group_env example_session (JStr []) = Inr False"
  by (simp add: claim_groups_def token_data_def unnamed_group_env_def example_env_def
      example_session_def isLoggedIn_def token_string_def)

lemma sequence_length: "sequence rs = Inr bs \<Longrightarrow> length bs = length rs"
  by (induction rs arbitrary: bs) (auto split: sum.splits)

lemma lodash_every_true_booleans: "lodash_every (map JBool bs) ''true'' = (bs = [])"
  by (cases bs) (simp_all add: lodash_every_def lodash_property_def js_get_def)

lemma isInGroups_array_true_only_empty:
  "isInGroups E st (JArr xs) = Inr True \<Longrightarrow> xs = []"
  by (auto simp: lodash_every_true_booleans split: if_splits sum.splits
      dest: sequence_length)

text \<open>
  C2. With the claims \<^verbatim>\<open>{groups: [{name: "admins"}]}\<close> and a token,
  \<^verbatim>\<open>isInGroup("admins")\<close> is true and \<^verbatim>\<open>isInGroups([])\<close> is true, but
  \<^verbatim>\<open>isInGroups(["admins"])\<close> is false, where the claim has true: \<^verbatim>\<open>every\<close> is given
  the predicate \<^verbatim>\<open>true\<close>, reads the property \<^verbatim>\<open>true\<close> of each boolean and finds
  none. By the lemma above no array but the empty one is ever answered true.
\<close>

theorem isInGroups_nonempty_is_false:
  "isInGroup example_env example_session (JStr ''admins'') = Inr True
   \<and> isInGroups example_env example_session (JArr [JStr ''admins'']) = Inr False
   \<and> isInGroups example_env example_session (JArr []) = Inr True"
  by (simp add: isLoggedIn_def token_string_def example_session_def in_token_groups_def
      token_data_def example_env_def js_get_def lodash_any_def js_eq_str_def
      lodash_every_def lodash_property_def)

subsection \<open>Logout and the current user\<close>

text \<open>
  C3. With the token \<^verbatim>\<open>T\<close> set, an account cached, and a server that answers the
  logout request with an HTTP error whose body has no \<^verbatim>\<open>error\<close> field,
  \<^verbatim>\<open>handleResponse\<close> throws in the transport's callback while reading
  \<^verbatim>\<open>error.message\<close>; the request's promise is never settled, no handler of logout
  runs, and the token is still \<^verbatim>\<open>T\<close> and the account still cached, where the claim
  has both cleared after every attempt.
\<close>

theorem logout_keeps_token_when_callback_throws:
  "fst (logout server_error_env cached_session) = Unsettled TypeError
   \<and> tokenString (snd (logout server_error_env cached_session)) = Some ''T''
   \<and> currentUser server_error_env (snd (logout server_error_env cached_session)) =
       JObj [(''username'', JStr ''u'')]"
  by (simp add: logout_def isLoggedIn_def token_string_def cached_session_def
      request_put_def issue_def handleResponse_def js_get_def server_error_env_def
      example_env_def currentUser_def getItem_def)

text \<open>
  What does hold of logout: without a token it rejects with \<^verbatim>\<open>NULL_ACCOUNT\<close> and
  sends nothing; with a token it sends one PUT to the logout URL, and whenever that
  request resolves or rejects, the token is gone and the current user is null.
\<close>

theorem logout_settled_clears:
  "(\<not> isLoggedIn st \<longrightarrow>
      logout E st =
        (Rejected (failure ''No logged in account to log out.'' ''NULL_ACCOUNT''), st))
   \<and> (isLoggedIn st \<longrightarrow>
        sent (snd (logout E st)) =
          sent st @ [put_request (tokenString st) (app_endpoint E @ ''/logout'') JUndefined])
   \<and> (isLoggedIn st \<and> (fst (logout E st) = Resolved v \<or> fst (logout E st) = Rejected v) \<longrightarrow>
        tokenString (snd (logout E st)) = None \<and> currentUser E (snd (logout E st)) = JNull)"
  by (cases "handleResponse (JSON_parse E)
        (transport E (put_request (tokenString st) (app_endpoint E @ ''/logout'') JUndefined))")
     (auto simp: logout_def request_put_def issue_def token_delete_def set_currentUser_def
      setItem_def removeItem_def currentUser_def getItem_def)

theorem logout_settled_clears_witness:
  "fst (logout example_env example_session) = Resolved (JStr ''ok'')
   \<and> tokenString (snd (logout example_env example_session)) = None
   \<and> currentUser example_env (snd (logout example_env example_session)) = JNull
   \<and> length (sent (snd (logout example_env example_session))) = 1"
proof -
  have l: "isLoggedIn example_session"
    by (simp add: isLoggedIn_def token_string_def example_session_def)
  have r: "fst (logout example_env example_session) = Resolved (JStr ''ok'')"
    by (simp add: logout_def l request_put_def issue_def handleResponse_def js_get_def
        example_env_def)
  from logout_settled_clears [where E = example_env and st = example_session
      and v = "JStr ''ok''"] l r
  show ?thesis by (simp add: example_session_def)
qed

text \<open>
  C4. With the token \<^verbatim>\<open>T\<close> set, no cached user, and a transport that fails with
  status 401 and the message \<^verbatim>\<open>Unauthorized\<close>, the client rejects with the message
  alone, \<^verbatim>\<open>getCurrentUser\<close> finds no \<^verbatim>\<open>status\<close> on it and rejects too; the token
  is still \<^verbatim>\<open>T\<close>, where the claim has null resolved and the token cleared.
\<close>

theorem getCurrentUser_unauthorized_rejects:
  "fst (getCurrentUser unauthorized_env example_session) = Rejected (JStr ''Unauthorized'')
   \<and> tokenString (snd (getCurrentUser unauthorized_env example_session)) = Some ''T''"
  by (simp add: getCurrentUser_def currentUser_def getItem_def isLoggedIn_def token_string_def
      example_session_def request_get_def issue_def handleResponse_def js_get_def
      js_eq_num_def unauthorized_env_def example_env_def)

end
